theory Spec2Isabelle
  imports Main "HOL-Library.Word"
begin

section \<open>NTLM over HTTP CONNECT: the handshake of \<open>dialNTLM\<close>\<close>

text \<open>
  The repository is one function, \<open>dialNTLM\<close> (\<open>ntlm_windows.go\<close>). It dials a proxy,
  obtains an SSPI credential and a client security context, and runs the two round trips
  of NTLM over \<open>CONNECT\<close>. The function is sequential; everything it does beyond computing
  its result is a call of a collaborator (the dial function, the SSPI provider, the
  connection). The embedding makes those calls explicit: the collaborators are the fields
  of a record \<open>world\<close>, and \<open>dialNTLM\<close> returns, next to its outcome, the list of the
  calls it made, in order. A Go \<open>defer\<close> is a call appended when the enclosing function is
  left, whether it returns or panics.
\<close>

subsection \<open>Values\<close>

type_synonym bytes = "8 word list"

text \<open>Handles of the collaborators are opaque to \<open>dialNTLM\<close>; they are numbered.\<close>

type_synonym conn = nat
type_synonym cred = nat
type_synonym secctx = nat

text \<open>
  A Go \<open>error\<close>. \<open>errors_New\<close> is \<open>errors.New\<close>, \<open>CorruptInputError\<close> is the error of
  \<open>encoding/base64\<close> with its input offset, and \<open>Foreign\<close> is an error made by a
  collaborator, known here by its text only.
\<close>

datatype error = errors_New string | CorruptInputError nat | Foreign string

fun Itoa :: "nat \<Rightarrow> string" where
  "Itoa n = (if n < 10 then [char_of (48 + n)] else Itoa (n div 10) @ [char_of (48 + n mod 10)])"

declare Itoa.simps [simp del]

fun Error :: "error \<Rightarrow> string" where
  "Error (errors_New s) = s"
| "Error (CorruptInputError n) = ''illegal base64 data at input byte '' @ Itoa n"
| "Error (Foreign s) = s"

text \<open>
  \<open>http.Header\<close> is a Go map from header names to lists of values, and a Go map may be
  \<open>nil\<close>: \<open>None\<close> is the nil map. \<open>Clone\<close> of nil is nil, otherwise a copy with the
  same entries. \<open>Set\<close> replaces the values of a key by one value; on the nil map the
  assignment panics. (\<open>Set\<close> canonicalises its key first; the two keys \<open>dialNTLM\<close> sets
  are in canonical form already.)
\<close>

type_synonym http_Header = "(string \<rightharpoonup> string list) option"

definition Clone :: "http_Header \<Rightarrow> http_Header" where
  "Clone h = (case h of None \<Rightarrow> None | Some m \<Rightarrow> Some (\<lambda>k. m k))"

definition Header_Set :: "http_Header \<Rightarrow> string \<Rightarrow> string \<Rightarrow> string + http_Header" where
  "Header_Set h key val =
     (case h of
        None \<Rightarrow> Inl ''assignment to entry in nil map''
      | Some m \<Rightarrow> Inr (Some (m(key \<mapsto> [val]))))"

text \<open>
  Modelled from the spec: the struct \<open>Proxy\<close> is declared elsewhere in the package.
  These are the fields \<open>dialNTLM\<close> reads: three strings, empty when not configured,
  and the extra headers.
\<close>

record Proxy =
  Domain :: string
  Username :: string
  Password :: string
  Headers :: http_Header

text \<open>
  The fields of \<open>http.Request\<close> that \<open>dialNTLM\<close> sets or reads. \<open>URL_Opaque\<close> is
  \<open>URL.Opaque\<close>. \<open>Body\<close> and \<open>GetBody\<close> are nil unless set.
\<close>

record request =
  Method :: string
  URL_Opaque :: string
  Host :: string
  Header :: http_Header
  Body :: "string option"
  GetBody :: "(unit \<Rightarrow> error + string) option"

text \<open>
  The fields of \<open>http.Response\<close> that \<open>dialNTLM\<close> reads, and what \<open>Body.Close()\<close>
  will return for it.
\<close>

record response =
  StatusCode :: int
  RespHeader :: "string \<rightharpoonup> string list"
  Body_Close :: "error option"

subsection \<open>The standard library\<close>

definition StatusOK :: int where
  "StatusOK = 200"

definition StatusProxyAuthRequired :: int where
  "StatusProxyAuthRequired = 407"

definition statusText :: "(int \<times> string) list" where
  "statusText =
    [(100, ''Continue''), (101, ''Switching Protocols''), (102, ''Processing''),
     (103, ''Early Hints''),
     (200, ''OK''), (201, ''Created''), (202, ''Accepted''),
     (203, ''Non-Authoritative Information''), (204, ''No Content''),
     (205, ''Reset Content''), (206, ''Partial Content''), (207, ''Multi-Status''),
     (208, ''Already Reported''), (226, ''IM Used''),
     (300, ''Multiple Choices''), (301, ''Moved Permanently''), (302, ''Found''),
     (303, ''See Other''), (304, ''Not Modified''), (305, ''Use Proxy''),
     (307, ''Temporary Redirect''), (308, ''Permanent Redirect''),
     (400, ''Bad Request''), (401, ''Unauthorized''), (402, ''Payment Required''),
     (403, ''Forbidden''), (404, ''Not Found''), (405, ''Method Not Allowed''),
     (406, ''Not Acceptable''), (407, ''Proxy Authentication Required''),
     (408, ''Request Timeout''), (409, ''Conflict''), (410, ''Gone''),
     (411, ''Length Required''), (412, ''Precondition Failed''),
     (413, ''Request Entity Too Large''), (414, ''Request URI Too Long''),
     (415, ''Unsupported Media Type''), (416, ''Requested Range Not Satisfiable''),
     (417, ''Expectation Failed''), (418, ''I'' @ [CHR 0x27] @ ''m a teapot''),
     (421, ''Misdirected Request''), (422, ''Unprocessable Entity''), (423, ''Locked''),
     (424, ''Failed Dependency''), (425, ''Too Early''), (426, ''Upgrade Required''),
     (428, ''Precondition Required''), (429, ''Too Many Requests''),
     (431, ''Request Header Fields Too Large''),
     (451, ''Unavailable For Legal Reasons''),
     (500, ''Internal Server Error''), (501, ''Not Implemented''), (502, ''Bad Gateway''),
     (503, ''Service Unavailable''), (504, ''Gateway Timeout''),
     (505, ''HTTP Version Not Supported''), (506, ''Variant Also Negotiates''),
     (507, ''Insufficient Storage''), (508, ''Loop Detected''), (510, ''Not Extended''),
     (511, ''Network Authentication Required'')]"

text \<open>\<open>http.StatusText\<close>: the reason phrase, or the empty string for an unknown code.\<close>

definition StatusText :: "int \<Rightarrow> string" where
  "StatusText code = (case map_of statusText code of Some s \<Rightarrow> s | None \<Rightarrow> [])"

text \<open>\<open>strings.HasPrefix\<close>.\<close>

definition HasPrefix :: "string \<Rightarrow> string \<Rightarrow> bool" where
  "HasPrefix s pre = (length pre \<le> length s \<and> take (length pre) s = pre)"

text \<open>\<open>fmt.Sprintf("NTLM %s", s)\<close>.\<close>

definition Sprintf_NTLM :: "string \<Rightarrow> string" where
  "Sprintf_NTLM s = ''NTLM '' @ s"

text \<open>
  \<open>base64.StdEncoding\<close>: the alphabet of RFC 4648, padded with \<open>=\<close>. Encoding takes
  three bytes at a time into four characters; one or two bytes left over give two or
  three characters and padding.
\<close>

definition encodeStd :: string where
  "encodeStd = ''ABCDEFGHIJKLMNOPQRSTUVWXYZabcdefghijklmnopqrstuvwxyz0123456789+/''"

definition enc6 :: "nat \<Rightarrow> char" where
  "enc6 v = encodeStd ! (v mod 64)"

fun EncodeToString :: "bytes \<Rightarrow> string" where
  "EncodeToString (a # b # c # rest) =
     (let val = unat a * 65536 + unat b * 256 + unat c
      in [enc6 (val div 262144), enc6 (val div 4096), enc6 (val div 64), enc6 val]
         @ EncodeToString rest)"
| "EncodeToString [a, b] =
     (let val = unat a * 65536 + unat b * 256
      in [enc6 (val div 262144), enc6 (val div 4096), enc6 (val div 64), CHR ''=''])"
| "EncodeToString [a] =
     (let val = unat a * 65536
      in [enc6 (val div 262144), enc6 (val div 4096), CHR ''='', CHR ''=''])"
| "EncodeToString [] = []"

text \<open>
  Decoding, as \<open>Encoding.Decode\<close> does it for the padded, non-strict standard encoding:
  characters are read four at a time, line feeds and carriage returns are skipped
  anywhere, padding ends the input, and any other character is an error at its offset.
  \<open>si\<close> is the offset of the next character, \<open>dbuf\<close> the six-bit values of the quantum
  being read, \<open>out\<close> the bytes decoded so far.
\<close>

fun index_of :: "'a \<Rightarrow> 'a list \<Rightarrow> nat option" where
  "index_of x [] = None"
| "index_of x (y # ys) =
     (if x = y then Some 0 else (case index_of x ys of None \<Rightarrow> None | Some i \<Rightarrow> Some (Suc i)))"

definition decodeMap :: "char \<Rightarrow> nat option" where
  "decodeMap c = index_of c encodeStd"

definition newline :: "char \<Rightarrow> bool" where
  "newline c = (c = CHR 0x0A \<or> c = CHR 0x0D)"

text \<open>The bytes of a quantum of two, three or four six-bit values.\<close>

definition quantum :: "nat list \<Rightarrow> bytes" where
  "quantum dbuf =
     (let d = dbuf @ replicate (4 - length dbuf) 0;
          val = d ! 0 * 262144 + d ! 1 * 4096 + d ! 2 * 64 + d ! 3
      in take (length dbuf - 1)
           [of_nat (val div 65536 mod 256), of_nat (val div 256 mod 256), of_nat (val mod 256)])"

text \<open>After the padding only newlines may follow.\<close>

definition trailing :: "string \<Rightarrow> nat \<Rightarrow> nat list \<Rightarrow> bytes \<Rightarrow> error + bytes" where
  "trailing cs si dbuf out =
     (let rest = dropWhile newline cs
      in if rest \<noteq> [] then Inl (CorruptInputError (si + (length cs - length rest)))
         else Inr (out @ quantum dbuf))"

text \<open>
  A \<open>=\<close> was read; \<open>si\<close> is the offset after it. Fewer than two values before it is an
  error; after two values a second \<open>=\<close> must follow.
\<close>

definition padding :: "string \<Rightarrow> nat \<Rightarrow> nat list \<Rightarrow> bytes \<Rightarrow> error + bytes" where
  "padding cs si dbuf out =
     (if length dbuf < 2 then Inl (CorruptInputError (si - 1))
      else if length dbuf = 2 then
        (let rest = dropWhile newline cs;
             si1 = si + (length cs - length rest)
         in case rest of
              [] \<Rightarrow> Inl (CorruptInputError si1)
            | c # rest1 \<Rightarrow>
                if c \<noteq> CHR ''='' then Inl (CorruptInputError (si1 - 1))
                else trailing rest1 (si1 + 1) dbuf out)
      else trailing cs si dbuf out)"

fun decodeLoop :: "string \<Rightarrow> nat \<Rightarrow> nat list \<Rightarrow> bytes \<Rightarrow> error + bytes" where
  "decodeLoop [] si dbuf out =
     (if dbuf = [] then Inr out else Inl (CorruptInputError (si - length dbuf)))"
| "decodeLoop (c # cs) si dbuf out =
     (case decodeMap c of
        Some v \<Rightarrow>
          if length dbuf = 3 then decodeLoop cs (si + 1) [] (out @ quantum (dbuf @ [v]))
          else decodeLoop cs (si + 1) (dbuf @ [v]) out
      | None \<Rightarrow>
          if newline c then decodeLoop cs (si + 1) dbuf out
          else if c \<noteq> CHR ''='' then Inl (CorruptInputError si)
          else padding cs (si + 1) dbuf out)"

definition DecodeString :: "string \<Rightarrow> error + bytes" where
  "DecodeString s = decodeLoop s 0 [] []"

subsection \<open>Collaborators and the record of a run\<close>

text \<open>
  What \<open>dialNTLM\<close> calls and does not define: the two ways of acquiring a credential
  and \<open>NewClientContext\<close> of package \<open>ntlm\<close>, \<open>Update\<close> of the security context, and
  the two operations on the connection, \<open>Request.WriteProxy\<close> and \<open>http.ReadResponse\<close>.
  Each returns a value or an error. The connection operations are numbered by round
  trip (0, then 1), so that the proxy may answer the same bytes differently the second
  time. The theorems hold for every \<open>world\<close>. The field \<open>WriteProxy\<close> is the
  error that \<open>Request.WriteProxy\<close> returns, if any; what a write on a nil connection
  does is \<open>Request_WriteProxy\<close> below.
\<close>

record world =
  AcquireUserCredentials :: "string \<Rightarrow> string \<Rightarrow> string \<Rightarrow> error + cred"
  AcquireCurrentUserCredentials :: "error + cred"
  NewClientContext :: "cred \<Rightarrow> error + secctx \<times> bytes"
  Update :: "secctx \<Rightarrow> bytes \<Rightarrow> error + bytes"
  WriteProxy :: "nat \<Rightarrow> request \<Rightarrow> conn option \<Rightarrow> error option"
  ReadResponse :: "nat \<Rightarrow> conn option \<Rightarrow> request \<Rightarrow> error + response"

text \<open>
  How \<open>connect.WriteProxy(conn)\<close> ends. It checks the host and the target of the
  request first and returns an error for a bad one without touching the connection;
  then it writes, and flushing the bytes to a nil \<open>net.Conn\<close> is a nil pointer
  dereference: the call panics. A connection that is not nil takes the bytes or
  returns an error.
\<close>

datatype written = Sent | Failed error | Crashed string

definition Request_WriteProxy :: "world \<Rightarrow> nat \<Rightarrow> request \<Rightarrow> conn option \<Rightarrow> written" where
  "Request_WriteProxy w n connect conn =
     (case WriteProxy w n connect conn of
        Some err \<Rightarrow> Failed err
      | None \<Rightarrow>
          (case conn of
             None \<Rightarrow> Crashed ''invalid memory address or nil pointer dereference''
           | Some c \<Rightarrow> Sent))"

text \<open>
  The calls a run makes, with their arguments and, for the connection, their results.
  \<open>ConnClose\<close> is \<open>conn.Close()\<close>; it is here so that its absence can be stated.
\<close>

datatype event =
    Dialed
  | AcquiredUser string string string
  | AcquiredCurrent
  | CreatedContext cred
  | Wrote request written
  | ReadResp request "error + response"
  | ClosedBody "error option"
  | Updated secctx bytes
  | GotBody
  | ReleasedContext secctx
  | ReleasedCredentials cred
  | ConnClose

text \<open>
  How a call of \<open>dialNTLM\<close> ends: it returns its pair of results, where either may be
  nil, or it panics.
\<close>

datatype outcome = Return "conn option" "error option" | Panic string

type_synonym run = "outcome \<times> event list"

text \<open>The calls \<open>evs\<close> were made before the rest of the run.\<close>

definition after :: "event list \<Rightarrow> run \<Rightarrow> run" where
  "after evs r = (fst r, evs @ snd r)"

text \<open>\<open>defer\<close>: the call \<open>ev\<close> is made when the rest of the run is over.\<close>

definition deferred :: "event \<Rightarrow> run \<Rightarrow> run" where
  "deferred ev r = (fst r, snd r @ [ev])"

subsection \<open>\<open>dialNTLM\<close>\<close>

text \<open>Lines 28 to 35: explicit credentials when all three strings are set.\<close>

definition acquire :: "world \<Rightarrow> Proxy \<Rightarrow> (error + cred) \<times> event" where
  "acquire w p =
     (if Domain p \<noteq> [] \<and> Username p \<noteq> [] \<and> Password p \<noteq> []
      then (AcquireUserCredentials w (Domain p) (Username p) (Password p),
            AcquiredUser (Domain p) (Username p) (Password p))
      else (AcquireCurrentUserCredentials w, AcquiredCurrent))"

text \<open>Lines 120 to 126: the verdict on the second response.\<close>

definition verdict :: "conn option \<Rightarrow> response \<Rightarrow> outcome" where
  "verdict conn resp =
     (if StatusCode resp = StatusOK then Return conn None
      else Return conn (Some (errors_New (StatusText (StatusCode resp)))))"

text \<open>Lines 101 to 105: a request that can produce its body again gets a fresh one.\<close>

definition rewind :: "request \<Rightarrow> (error + request) \<times> event list" where
  "rewind connect =
     (case GetBody connect of
        None \<Rightarrow> (Inr connect, [])
      | Some getBody \<Rightarrow>
          (case getBody () of
             Inl err \<Rightarrow> (Inl err, [GotBody])
           | Inr body \<Rightarrow> (Inr (connect\<lparr>Body := Some body\<rparr>), [GotBody])))"

text \<open>
  Lines 100 to 126: the second round trip, for the request \<open>connect\<close> of the first and
  the token \<open>authenticate\<close>. The result of closing the second body is dropped.
\<close>

definition replay :: "world \<Rightarrow> conn option \<Rightarrow> request \<Rightarrow> bytes \<Rightarrow> run" where
  "replay w conn connect authenticate =
     (case rewind connect of
        (Inl err, evs) \<Rightarrow> (Return conn (Some err), evs)
      | (Inr connect1, evs) \<Rightarrow>
          (case Header_Set (Header connect1) ''Proxy-Authorization''
                  (Sprintf_NTLM (EncodeToString authenticate)) of
             Inl msg \<Rightarrow> (Panic msg, evs)
           | Inr h \<Rightarrow>
               (let connect2 = connect1\<lparr>Header := h\<rparr>
                in case Request_WriteProxy w 1 connect2 conn of
                     Failed err \<Rightarrow>
                       (Return conn (Some err), evs @ [Wrote connect2 (Failed err)])
                   | Crashed msg \<Rightarrow> (Panic msg, evs @ [Wrote connect2 (Crashed msg)])
                   | Sent \<Rightarrow>
                       (case ReadResponse w 1 conn connect2 of
                          Inl err \<Rightarrow>
                            (Return conn (Some err),
                             evs @ [Wrote connect2 Sent, ReadResp connect2 (Inl err)])
                        | Inr resp \<Rightarrow>
                            (verdict conn resp,
                             evs @ [Wrote connect2 Sent, ReadResp connect2 (Inr resp),
                                    ClosedBody (Body_Close resp)])))))"

text \<open>Lines 72 to 86: the first response must be a 407 with one NTLM challenge.\<close>

definition challengeHeader :: "response \<Rightarrow> error + string" where
  "challengeHeader resp =
     (if StatusCode resp \<noteq> StatusProxyAuthRequired
      then Inl (errors_New ''Unexpected HTTP status code'')
      else case RespHeader resp ''Proxy-Authenticate'' of
             None \<Rightarrow> Inl (errors_New ''did not receive a challenge from the server'')
           | Some challengeHeaders \<Rightarrow>
               if length challengeHeaders \<noteq> 1
               then Inl (errors_New ''received malformed challenge from the server'')
               else if length (challengeHeaders ! 0) < 6
                       \<or> \<not> HasPrefix (challengeHeaders ! 0) ''NTLM ''
               then Inl (errors_New ''received malformed challenge from the server'')
               else Inr (challengeHeaders ! 0))"

text \<open>
  Lines 72 to 126: from the first response, once its body is closed, to the end.
\<close>

definition answer :: "world \<Rightarrow> conn option \<Rightarrow> secctx \<Rightarrow> request \<Rightarrow> response \<Rightarrow> run" where
  "answer w conn ctx connect resp =
     (case challengeHeader resp of
        Inl err \<Rightarrow> (Return conn (Some err), [])
      | Inr hdr \<Rightarrow>
          (case DecodeString (drop 5 hdr) of
             Inl err \<Rightarrow> (Return conn (Some err), [])
           | Inr challenge \<Rightarrow>
               (case Update w ctx challenge of
                  Inl err \<Rightarrow> (Return conn (Some err), [Updated ctx challenge])
                | Inr authenticate \<Rightarrow>
                    after [Updated ctx challenge] (replay w conn connect authenticate))))"

text \<open>
  Lines 49 to 126: with the credential and the context in hand. Setting a header on the
  clone of a nil map panics, and so does the write at line 58 on a nil connection,
  which a dial function returning no connection and no error leaves behind.
\<close>

definition handshake :: "world \<Rightarrow> Proxy \<Rightarrow> string \<Rightarrow> conn option \<Rightarrow> secctx \<Rightarrow> bytes \<Rightarrow> run" where
  "handshake w p addr conn ctx negotiate =
     (case Header_Set (Clone (Headers p)) ''Proxy-Authorization''
             (Sprintf_NTLM (EncodeToString negotiate)) of
        Inl msg \<Rightarrow> (Panic msg, [])
      | Inr h1 \<Rightarrow>
          (case Header_Set h1 ''Proxy-Connection'' ''Keep-Alive'' of
             Inl msg \<Rightarrow> (Panic msg, [])
           | Inr h \<Rightarrow>
               (let connect = \<lparr>Method = ''CONNECT'', URL_Opaque = addr, Host = addr,
                                Header = h, Body = None, GetBody = None\<rparr>
                in case Request_WriteProxy w 0 connect conn of
                     Failed err \<Rightarrow> (Return conn (Some err), [Wrote connect (Failed err)])
                   | Crashed msg \<Rightarrow> (Panic msg, [Wrote connect (Crashed msg)])
                   | Sent \<Rightarrow>
                       (case ReadResponse w 0 conn connect of
                          Inl err \<Rightarrow>
                            (Return conn (Some err),
                             [Wrote connect Sent, ReadResp connect (Inl err)])
                        | Inr resp \<Rightarrow>
                            (case Body_Close resp of
                               Some err \<Rightarrow>
                                 (Return conn (Some err),
                                  [Wrote connect Sent, ReadResp connect (Inr resp),
                                   ClosedBody (Some err)])
                             | None \<Rightarrow>
                                 after [Wrote connect Sent, ReadResp connect (Inr resp),
                                        ClosedBody None]
                                   (answer w conn ctx connect resp))))))"

text \<open>
  Lines 42 to 47: the security context, released when the function is left.
\<close>

definition withCredentials :: "world \<Rightarrow> Proxy \<Rightarrow> string \<Rightarrow> conn option \<Rightarrow> cred \<Rightarrow> run" where
  "withCredentials w p addr conn cr =
     after [CreatedContext cr]
       (case NewClientContext w cr of
          Inl err \<Rightarrow> (Return conn (Some err), [])
        | Inr (ctx, negotiate) \<Rightarrow>
            deferred (ReleasedContext ctx) (handshake w p addr conn ctx negotiate))"

text \<open>
  The whole function. \<open>baseDial\<close> returns a connection and an error, either of which
  may be nil; the credential is released when the function is left, after the context.
\<close>

definition dialNTLM ::
  "world \<Rightarrow> Proxy \<Rightarrow> string \<Rightarrow> (unit \<Rightarrow> conn option \<times> error option) \<Rightarrow> run" where
  "dialNTLM w p addr baseDial =
     after [Dialed]
       (case baseDial () of
          (conn, Some err) \<Rightarrow> (Return conn (Some err), [])
        | (conn, None) \<Rightarrow>
            (case acquire w p of
               (Inl err, ev) \<Rightarrow> (Return conn (Some err), [ev])
             | (Inr cr, ev) \<Rightarrow>
                 after [ev]
                   (deferred (ReleasedCredentials cr) (withCredentials w p addr conn cr))))"

subsection \<open>Reading a run\<close>

fun writes :: "event list \<Rightarrow> request list" where
  "writes [] = []"
| "writes (Wrote r res # evs) = r # writes evs"
| "writes (ev # evs) = writes evs"

fun responses :: "event list \<Rightarrow> response list" where
  "responses [] = []"
| "responses (ReadResp r (Inr resp) # evs) = resp # responses evs"
| "responses (ev # evs) = responses evs"

fun updates :: "event list \<Rightarrow> bytes list" where
  "updates [] = []"
| "updates (Updated ctx b # evs) = b # updates evs"
| "updates (ev # evs) = updates evs"

fun releasedCredentials :: "event list \<Rightarrow> cred list" where
  "releasedCredentials [] = []"
| "releasedCredentials (ReleasedCredentials c # evs) = c # releasedCredentials evs"
| "releasedCredentials (ev # evs) = releasedCredentials evs"

fun releasedContexts :: "event list \<Rightarrow> secctx list" where
  "releasedContexts [] = []"
| "releasedContexts (ReleasedContext c # evs) = c # releasedContexts evs"
| "releasedContexts (ev # evs) = releasedContexts evs"

subsection \<open>Example runs\<close>

text \<open>
  A proxy configured with explicit credentials and one extra header, a dial function
  that connects, and a provider whose tokens are the first bytes of NTLM messages of
  types 1 and 3. \<open>scripted r1 r2\<close> is the world in which every write succeeds and the
  proxy answers the first request with \<open>r1\<close> and the second with \<open>r2\<close>.
\<close>

definition corpProxy :: Proxy where
  "corpProxy = \<lparr>Domain = ''CORP'', Username = ''alice'', Password = ''secret'',
                 Headers = Some [''User-Agent'' \<mapsto> [''proxyplease'']]\<rparr>"

definition bareProxy :: Proxy where
  "bareProxy = \<lparr>Domain = [], Username = [], Password = [], Headers = None\<rparr>"

definition dialOk :: "unit \<Rightarrow> conn option \<times> error option" where
  "dialOk u = (Some 1, None)"

definition dialRefused :: "unit \<Rightarrow> conn option \<times> error option" where
  "dialRefused u = (None, Some (Foreign ''connection refused''))"

definition negotiateMessage :: bytes where
  "negotiateMessage = [78, 84, 76, 77, 83, 83, 80, 0, 1]"

definition authenticateMessage :: bytes where
  "authenticateMessage = [78, 84, 76, 77, 83, 83, 80, 0, 3]"

definition scripted :: "response \<Rightarrow> response \<Rightarrow> world" where
  "scripted r1 r2 =
     \<lparr>AcquireUserCredentials = (\<lambda>domain username password. Inr 7),
      AcquireCurrentUserCredentials = Inr 8,
      NewClientContext = (\<lambda>cr. Inr (11, negotiateMessage)),
      Update = (\<lambda>ctx challenge. Inr authenticateMessage),
      WriteProxy = (\<lambda>n r c. None),
      ReadResponse = (\<lambda>n c r. Inr (if n = 0 then r1 else r2))\<rparr>"

text \<open>A 407 carrying the challenge \<open>NTLMSSP\<close>, 0, 2 in base64.\<close>

definition challenge407 :: response where
  "challenge407 = \<lparr>StatusCode = 407,
                    RespHeader = [''Proxy-Authenticate'' \<mapsto> [''NTLM TlRMTVNTUAAC'']],
                    Body_Close = None\<rparr>"

definition ok200 :: response where
  "ok200 = \<lparr>StatusCode = 200, RespHeader = Map.empty, Body_Close = None\<rparr>"

definition forbidden403 :: response where
  "forbidden403 = \<lparr>StatusCode = 403, RespHeader = Map.empty, Body_Close = None\<rparr>"

text \<open>A 200 whose body cannot be read to its end.\<close>

definition truncated200 :: response where
  "truncated200 = \<lparr>StatusCode = 200, RespHeader = Map.empty,
                    Body_Close = Some (Foreign ''unexpected EOF'')\<rparr>"

text \<open>A 407 without a challenge, first intact, then with a body cut short.\<close>

definition bare407 :: response where
  "bare407 = \<lparr>StatusCode = 407, RespHeader = Map.empty, Body_Close = None\<rparr>"

definition truncated407 :: response where
  "truncated407 = \<lparr>StatusCode = 407, RespHeader = Map.empty,
                    Body_Close = Some (Foreign ''unexpected EOF'')\<rparr>"

text \<open>A 407 whose challenge is not base64.\<close>

definition garbled407 :: response where
  "garbled407 = \<lparr>StatusCode = 407,
                  RespHeader = [''Proxy-Authenticate'' \<mapsto> [''NTLM !!!!'']],
                  Body_Close = None\<rparr>"

text \<open>The same, with a body cut short.\<close>

definition garbledTruncated407 :: response where
  "garbledTruncated407 = \<lparr>StatusCode = 407,
                  RespHeader = [''Proxy-Authenticate'' \<mapsto> [''NTLM !!!!'']],
                  Body_Close = Some (Foreign ''unexpected EOF'')\<rparr>"

text \<open>A dial function that reports success and hands over no connection.\<close>

definition dialNil :: "unit \<Rightarrow> conn option \<times> error option" where
  "dialNil u = (None, None)"

text \<open>A request that can produce its body again.\<close>

definition rewindable :: request where
  "rewindable = \<lparr>Method = ''CONNECT'', URL_Opaque = ''example.org:443'',
                  Host = ''example.org:443'', Header = Some Map.empty,
                  Body = Some [], GetBody = Some (\<lambda>u. Inr ''payload'')\<rparr>"

text \<open>
  The two requests of a run with \<open>corpProxy\<close>, the address \<open>example.org:443\<close> and
  the tokens above.
\<close>

definition firstConnect :: request where
  "firstConnect =
     \<lparr>Method = ''CONNECT'', URL_Opaque = ''example.org:443'', Host = ''example.org:443'',
      Header = Some [''User-Agent'' \<mapsto> [''proxyplease''],
                     ''Proxy-Authorization'' \<mapsto> [''NTLM TlRMTVNTUAAB''],
                     ''Proxy-Connection'' \<mapsto> [''Keep-Alive'']],
      Body = None, GetBody = None\<rparr>"

definition secondConnect :: request where
  "secondConnect =
     \<lparr>Method = ''CONNECT'', URL_Opaque = ''example.org:443'', Host = ''example.org:443'',
      Header = Some [''User-Agent'' \<mapsto> [''proxyplease''],
                     ''Proxy-Connection'' \<mapsto> [''Keep-Alive''],
                     ''Proxy-Authorization'' \<mapsto> [''NTLM TlRMTVNTUAAD'']],
      Body = None, GetBody = None\<rparr>"

section \<open>Properties\<close>

subsection \<open>Reading runs piece by piece\<close>

lemma writes_append: "writes (xs @ ys) = writes xs @ writes ys"
  by (induction xs rule: writes.induct) simp_all

lemma responses_append: "responses (xs @ ys) = responses xs @ responses ys"
  by (induction xs rule: responses.induct) simp_all

lemma updates_append: "updates (xs @ ys) = updates xs @ updates ys"
  by (induction xs rule: updates.induct) simp_all

lemma releasedCredentials_append:
  "releasedCredentials (xs @ ys) = releasedCredentials xs @ releasedCredentials ys"
  by (induction xs rule: releasedCredentials.induct) simp_all

lemma releasedContexts_append:
  "releasedContexts (xs @ ys) = releasedContexts xs @ releasedContexts ys"
  by (induction xs rule: releasedContexts.induct) simp_all

lemmas reading_append = writes_append responses_append updates_append
  releasedCredentials_append releasedContexts_append

lemma snd_after: "snd (after evs r) = evs @ snd r"
  by (simp add: after_def)

lemma fst_after: "fst (after evs r) = fst r"
  by (simp add: after_def)

lemma snd_deferred: "snd (deferred ev r) = snd r @ [ev]"
  by (simp add: deferred_def)

lemma fst_deferred: "fst (deferred ev r) = fst r"
  by (simp add: deferred_def)

lemmas run_simps = snd_after fst_after snd_deferred fst_deferred

lemma acquire_event:
  "writes (snd (acquire w p) # evs) = writes evs"
  "responses (snd (acquire w p) # evs) = responses evs"
  "updates (snd (acquire w p) # evs) = updates evs"
  "releasedCredentials (snd (acquire w p) # evs) = releasedCredentials evs"
  "releasedContexts (snd (acquire w p) # evs) = releasedContexts evs"
  by (simp_all add: acquire_def)

lemma acquire_not_close:
  "snd (acquire w p) \<noteq> ConnClose" "ConnClose \<noteq> snd (acquire w p)"
  "snd (acquire w p) \<noteq> GotBody" "GotBody \<noteq> snd (acquire w p)"
  by (simp_all add: acquire_def)


text \<open>
  A run of \<open>dialNTLM\<close> either ends before any request is written, or is the run of
  \<open>handshake\<close> between the acquisitions and the two releases.
\<close>

lemma dialNTLM_cases:
  fixes baseDial :: "unit \<Rightarrow> conn option \<times> error option"
  obtains
    (early) e where "fst (dialNTLM w p addr baseDial) = Return (fst (baseDial ())) (Some e)"
      "writes (snd (dialNTLM w p addr baseDial)) = []"
      "responses (snd (dialNTLM w p addr baseDial)) = []"
      "updates (snd (dialNTLM w p addr baseDial)) = []"
      "ConnClose \<notin> set (snd (dialNTLM w p addr baseDial))"
      "GotBody \<notin> set (snd (dialNTLM w p addr baseDial))"
  | (handshake) cr ctx neg where
      "snd (baseDial ()) = None" "fst (acquire w p) = Inr cr"
      "NewClientContext w cr = Inr (ctx, neg)"
      "dialNTLM w p addr baseDial =
         (fst (handshake w p addr (fst (baseDial ())) ctx neg),
          [Dialed, snd (acquire w p), CreatedContext cr]
          @ snd (handshake w p addr (fst (baseDial ())) ctx neg)
          @ [ReleasedContext ctx, ReleasedCredentials cr])"
proof (cases "baseDial ()")
  case (Pair conn err)
  show ?thesis
  proof (cases err)
    case (Some e)
    with Pair show ?thesis
      by (intro early [of e]) (simp_all add: dialNTLM_def run_simps)
  next
    case None
    show ?thesis
    proof (cases "fst (acquire w p)")
      case (Inl e)
      with Pair None show ?thesis
        by (intro early [of e])
          (simp_all add: dialNTLM_def run_simps split_beta acquire_event acquire_not_close)
    next
      case (Inr cr)
      show ?thesis
      proof (cases "NewClientContext w cr")
        case (Inl e)
        with Pair None Inr show ?thesis
          by (intro early [of e])
            (simp_all add: dialNTLM_def withCredentials_def run_simps split_beta acquire_event
              acquire_not_close)
      next
        case (Inr b)
        obtain ctx neg where b: "b = (ctx, neg)" by (cases b)
        from Pair None \<open>fst (acquire w p) = Inr cr\<close> Inr b show ?thesis
          by (intro handshake [of cr ctx neg])
            (simp_all add: dialNTLM_def withCredentials_def run_simps split_beta after_def
              deferred_def)
      qed
    qed
  qed
qed

lemma handshake_cases:
  fixes addr :: string and neg :: bytes
    and R :: "(string \<rightharpoonup> string list) \<Rightarrow> request"
  defines "R \<equiv> \<lambda>h. \<lparr>Method = ''CONNECT'', URL_Opaque = addr, Host = addr,
      Header = Some (h(''Proxy-Authorization'' \<mapsto> [''NTLM '' @ EncodeToString neg],
                       ''Proxy-Connection'' \<mapsto> [''Keep-Alive''])),
      Body = None, GetBody = None\<rparr>"
  obtains
    (nil_map) "Headers p = None"
      "handshake w p addr conn ctx neg = (Panic ''assignment to entry in nil map'', [])"
  | (write_failed) h err where "Headers p = Some h"
      "handshake w p addr conn ctx neg = (Return conn (Some err), [Wrote (R h) (Failed err)])"
  | (write_crashed) h msg where "Headers p = Some h" "conn = None"
      "handshake w p addr conn ctx neg = (Panic msg, [Wrote (R h) (Crashed msg)])"
  | (read_failed) h err where "Headers p = Some h" "conn \<noteq> None"
      "handshake w p addr conn ctx neg =
         (Return conn (Some err), [Wrote (R h) Sent, ReadResp (R h) (Inl err)])"
  | (close_failed) h resp err where "Headers p = Some h" "conn \<noteq> None"
      "Body_Close resp = Some err"
      "handshake w p addr conn ctx neg =
         (Return conn (Some err),
          [Wrote (R h) Sent, ReadResp (R h) (Inr resp), ClosedBody (Some err)])"
  | (answered) h resp where "Headers p = Some h" "conn \<noteq> None" "Body_Close resp = None"
      "handshake w p addr conn ctx neg =
         (fst (answer w conn ctx (R h) resp),
          [Wrote (R h) Sent, ReadResp (R h) (Inr resp), ClosedBody None]
          @ snd (answer w conn ctx (R h) resp))"
proof (cases "Headers p")
  case None
  then show ?thesis
    by (intro nil_map) (simp_all add: handshake_def Clone_def Header_Set_def)
next
  case (Some h)
  have unfold: "handshake w p addr conn ctx neg =
    (case Request_WriteProxy w 0 (R h) conn of
       Failed err \<Rightarrow> (Return conn (Some err), [Wrote (R h) (Failed err)])
     | Crashed msg \<Rightarrow> (Panic msg, [Wrote (R h) (Crashed msg)])
     | Sent \<Rightarrow>
        (case ReadResponse w 0 conn (R h) of
           Inl err \<Rightarrow> (Return conn (Some err), [Wrote (R h) Sent, ReadResp (R h) (Inl err)])
         | Inr resp \<Rightarrow>
            (case Body_Close resp of
               Some err \<Rightarrow>
                 (Return conn (Some err),
                  [Wrote (R h) Sent, ReadResp (R h) (Inr resp), ClosedBody (Some err)])
             | None \<Rightarrow>
                 after [Wrote (R h) Sent, ReadResp (R h) (Inr resp), ClosedBody None]
                   (answer w conn ctx (R h) resp))))"
    using Some
    by (auto simp: handshake_def Clone_def Header_Set_def Sprintf_NTLM_def R_def Let_def
        split: option.splits sum.splits written.splits)
  have sent: "Request_WriteProxy w 0 (R h) conn = Sent \<Longrightarrow> conn \<noteq> None"
    and crashed: "Request_WriteProxy w 0 (R h) conn = Crashed msg \<Longrightarrow> conn = None" for msg
    by (auto simp: Request_WriteProxy_def split: option.splits)
  show ?thesis
  proof (cases "Request_WriteProxy w 0 (R h) conn")
    case (Failed err)
    with unfold \<open>Headers p = Some h\<close> show ?thesis
      by (intro write_failed [of h err]) simp_all
  next
    case (Crashed msg)
    with unfold \<open>Headers p = Some h\<close> crashed [OF Crashed] show ?thesis
      by (intro write_crashed [of h msg]) simp_all
  next
    case Sent
    note wr = this
    show ?thesis
    proof (cases "ReadResponse w 0 conn (R h)")
      case (Inl err)
      with unfold wr \<open>Headers p = Some h\<close> sent [OF wr] show ?thesis
        by (intro read_failed [of h err]) simp_all
    next
      case (Inr resp)
      show ?thesis
      proof (cases "Body_Close resp")
        case (Some err)
        with unfold wr Inr \<open>Headers p = Some h\<close> sent [OF wr] show ?thesis
          by (intro close_failed [of h resp err]) simp_all
      next
        case None
        with unfold wr Inr \<open>Headers p = Some h\<close> sent [OF wr] show ?thesis
          by (intro answered [of h resp]) (simp_all add: after_def)
      qed
    qed
  qed
qed

lemma answer_cases:
  obtains
    (rejected) err where "challengeHeader resp = Inl err"
      "answer w conn ctx connect resp = (Return conn (Some err), [])"
  | (undecodable) hdr err where "challengeHeader resp = Inr hdr"
      "DecodeString (drop 5 hdr) = Inl err"
      "answer w conn ctx connect resp = (Return conn (Some err), [])"
  | (update_failed) hdr challenge err where "challengeHeader resp = Inr hdr"
      "DecodeString (drop 5 hdr) = Inr challenge" "Update w ctx challenge = Inl err"
      "answer w conn ctx connect resp = (Return conn (Some err), [Updated ctx challenge])"
  | (replayed) hdr challenge authenticate where "challengeHeader resp = Inr hdr"
      "DecodeString (drop 5 hdr) = Inr challenge"
      "Update w ctx challenge = Inr authenticate"
      "answer w conn ctx connect resp =
         (fst (replay w conn connect authenticate),
          Updated ctx challenge # snd (replay w conn connect authenticate))"
proof (cases "challengeHeader resp")
  case (Inl err)
  then show ?thesis by (intro rejected [of err]) (simp_all add: answer_def)
next
  case (Inr hdr)
  note hdr = this
  show ?thesis
  proof (cases "DecodeString (drop 5 hdr)")
    case (Inl err)
    with hdr show ?thesis by (intro undecodable [of hdr err]) (simp_all add: answer_def)
  next
    case (Inr challenge)
    note ch = this
    show ?thesis
    proof (cases "Update w ctx challenge")
      case (Inl err)
      with hdr ch show ?thesis
        by (intro update_failed [of hdr challenge err]) (simp_all add: answer_def)
    next
      case (Inr authenticate)
      with hdr ch show ?thesis
        by (intro replayed [of hdr challenge authenticate])
          (simp_all add: answer_def after_def)
    qed
  qed
qed

lemma replay_cases:
  fixes connect R2 :: request and h :: "string \<rightharpoonup> string list"
    and authenticate :: bytes
  assumes "GetBody connect = None" "Header connect = Some h"
  defines "R2 \<equiv> connect\<lparr>Header :=
      Some (h(''Proxy-Authorization'' \<mapsto> [''NTLM '' @ EncodeToString authenticate]))\<rparr>"
  obtains
    (write_failed) err where
      "replay w conn connect authenticate = (Return conn (Some err), [Wrote R2 (Failed err)])"
  | (write_crashed) msg where "conn = None"
      "replay w conn connect authenticate = (Panic msg, [Wrote R2 (Crashed msg)])"
  | (read_failed) err where "conn \<noteq> None"
      "replay w conn connect authenticate =
         (Return conn (Some err), [Wrote R2 Sent, ReadResp R2 (Inl err)])"
  | (judged) resp where "conn \<noteq> None"
      "replay w conn connect authenticate =
         (verdict conn resp,
          [Wrote R2 Sent, ReadResp R2 (Inr resp), ClosedBody (Body_Close resp)])"
proof -
  have unfold: "replay w conn connect authenticate =
    (case Request_WriteProxy w 1 R2 conn of
       Failed err \<Rightarrow> (Return conn (Some err), [Wrote R2 (Failed err)])
     | Crashed msg \<Rightarrow> (Panic msg, [Wrote R2 (Crashed msg)])
     | Sent \<Rightarrow>
        (case ReadResponse w 1 conn R2 of
           Inl err \<Rightarrow> (Return conn (Some err), [Wrote R2 Sent, ReadResp R2 (Inl err)])
         | Inr resp \<Rightarrow>
            (verdict conn resp,
             [Wrote R2 Sent, ReadResp R2 (Inr resp), ClosedBody (Body_Close resp)])))"
    using assms(1,2)
    by (auto simp: replay_def rewind_def Header_Set_def Sprintf_NTLM_def R2_def Let_def
        split: option.splits sum.splits written.splits)
  show ?thesis
  proof (cases "Request_WriteProxy w 1 R2 conn")
    case (Failed err)
    with unfold show ?thesis by (intro write_failed [of err]) simp
  next
    case (Crashed msg)
    then have "conn = None"
      by (auto simp: Request_WriteProxy_def split: option.splits)
    with unfold Crashed show ?thesis by (intro write_crashed [of msg]) simp_all
  next
    case Sent
    then have live: "conn \<noteq> None"
      by (auto simp: Request_WriteProxy_def split: option.splits)
    note wr = Sent
    show ?thesis
    proof (cases "ReadResponse w 1 conn R2")
      case (Inl err)
      with unfold wr live show ?thesis by (intro read_failed [of err]) simp_all
    next
      case (Inr resp)
      with unfold wr live show ?thesis by (intro judged [of resp]) simp_all
    qed
  qed
qed

text \<open>What every run of \<open>handshake\<close> has: no release of its own, no close, its connection.\<close>

lemma replay_plain:
  assumes "GetBody connect = None" "Header connect = Some h"
  shows "releasedCredentials (snd (replay w conn connect a)) = []"
    and "releasedContexts (snd (replay w conn connect a)) = []"
    and "updates (snd (replay w conn connect a)) = []"
    and "ConnClose \<notin> set (snd (replay w conn connect a))"
    and "GotBody \<notin> set (snd (replay w conn connect a))"
  by (cases rule: replay_cases [OF assms, of w conn a]; simp add: verdict_def)+

lemma replay_returns:
  assumes "GetBody connect = None" "Header connect = Some h"
    and "fst (replay w conn connect a) = Return c e"
  shows "c = conn"
  using assms(3)
  by (cases rule: replay_cases [OF assms(1,2), of w conn a])
    (auto simp: verdict_def split: if_splits)

lemma answer_plain:
  assumes "GetBody connect = None" "Header connect = Some h"
  shows "releasedCredentials (snd (answer w conn ctx connect resp)) = []"
    and "releasedContexts (snd (answer w conn ctx connect resp)) = []"
    and "ConnClose \<notin> set (snd (answer w conn ctx connect resp))"
    and "GotBody \<notin> set (snd (answer w conn ctx connect resp))"
  by (cases rule: answer_cases [of resp w conn ctx connect];
      simp add: replay_plain [OF assms])+

lemma answer_returns:
  assumes "GetBody connect = None" "Header connect = Some h"
    and "fst (answer w conn ctx connect resp) = Return c e"
  shows "c = conn"
  using assms(3)
  by (cases rule: answer_cases [of resp w conn ctx connect])
    (auto dest: replay_returns [OF assms(1,2)])

lemma handshake_plain:
  shows "releasedCredentials (snd (handshake w p addr conn ctx neg)) = []"
    and "releasedContexts (snd (handshake w p addr conn ctx neg)) = []"
    and "ConnClose \<notin> set (snd (handshake w p addr conn ctx neg))"
    and "Headers p = None \<Longrightarrow>
           handshake w p addr conn ctx neg = (Panic ''assignment to entry in nil map'', [])"
    and "GotBody \<notin> set (snd (handshake w p addr conn ctx neg))"
  by (cases rule: handshake_cases [of p w addr conn ctx neg];
      simp add: reading_append answer_plain)+

lemma handshake_returns:
  assumes "fst (handshake w p addr conn ctx neg) = Return c e"
  shows "c = conn" and "Headers p \<noteq> None"
  using assms
  by (cases rule: handshake_cases [of p w addr conn ctx neg];
      auto dest: answer_returns [rotated 2])+

text \<open>
  A run of \<open>handshake\<close> that read a first response: either closing its body failed,
  or the rest of the run is the run of \<open>answer\<close> on a request without \<open>GetBody\<close>.
\<close>

lemma handshake_first_response:
  assumes "responses (snd (handshake w p addr conn ctx neg)) = resp1 # rest"
  obtains
    (close_failed) err connect where "Body_Close resp1 = Some err" "rest = []"
      "handshake w p addr conn ctx neg =
         (Return conn (Some err),
          [Wrote connect Sent, ReadResp connect (Inr resp1), ClosedBody (Some err)])"
  | (answered) connect h where "Body_Close resp1 = None"
      "GetBody connect = None" "Header connect = Some h"
      "handshake w p addr conn ctx neg =
         (fst (answer w conn ctx connect resp1),
          [Wrote connect Sent, ReadResp connect (Inr resp1), ClosedBody None]
          @ snd (answer w conn ctx connect resp1))"
proof (cases rule: handshake_cases [of p w addr conn ctx neg])
  case nil_map
  with assms show ?thesis by simp
next
  case (write_failed h err)
  with assms show ?thesis by simp
next
  case (write_crashed h msg)
  with assms show ?thesis by simp
next
  case (read_failed h err)
  with assms show ?thesis by simp
next
  case (close_failed h resp err)
  with assms have "resp = resp1" "rest = []" by simp_all
  with close_failed show ?thesis by (intro that(1) [of err]) simp_all
next
  case (answered h resp)
  with assms have "resp = resp1" by (simp add: reading_append)
  with answered show ?thesis by (intro that(2)) simp_all
qed

text \<open>The second round trip, seen from \<open>answer\<close>.\<close>

lemma answer_writes:
  assumes "GetBody connect = None" "Header connect = Some h"
  shows "writes (snd (answer w conn ctx connect resp)) = [] \<or>
    (\<exists>challenge authenticate.
       Updated ctx challenge \<in> set (snd (answer w conn ctx connect resp)) \<and>
       Update w ctx challenge = Inr authenticate \<and>
       writes (snd (answer w conn ctx connect resp)) =
         [connect\<lparr>Header := Some (h(''Proxy-Authorization'' \<mapsto>
            [''NTLM '' @ EncodeToString authenticate]))\<rparr>])"
proof (cases rule: answer_cases [of resp w conn ctx connect])
  case (replayed hdr challenge authenticate)
  have "writes (snd (replay w conn connect authenticate)) =
      [connect\<lparr>Header := Some (h(''Proxy-Authorization'' \<mapsto>
            [''NTLM '' @ EncodeToString authenticate]))\<rparr>]"
    by (cases rule: replay_cases [OF assms, of w conn authenticate]) simp_all
  with replayed show ?thesis by auto
qed simp_all

lemma answer_responses:
  assumes "GetBody connect = None" "Header connect = Some h"
  shows "responses (snd (answer w conn ctx connect resp)) = [] \<or>
    (\<exists>resp2. responses (snd (answer w conn ctx connect resp)) = [resp2] \<and>
       length (writes (snd (answer w conn ctx connect resp))) = 1 \<and>
       fst (answer w conn ctx connect resp) = verdict conn resp2)"
proof (cases rule: answer_cases [of resp w conn ctx connect])
  case (replayed hdr challenge authenticate)
  have "responses (snd (replay w conn connect authenticate)) = [] \<or>
    (\<exists>resp2. responses (snd (replay w conn connect authenticate)) = [resp2] \<and>
       length (writes (snd (replay w conn connect authenticate))) = 1 \<and>
       fst (replay w conn connect authenticate) = verdict conn resp2)"
    by (cases rule: replay_cases [OF assms, of w conn authenticate]) simp_all
  with replayed show ?thesis by auto
qed simp_all

lemma answer_updates:
  assumes "GetBody connect = None" "Header connect = Some h"
  shows "updates (snd (answer w conn ctx connect resp)) =
    (case challengeHeader resp of
       Inl err \<Rightarrow> []
     | Inr hdr \<Rightarrow> (case DecodeString (drop 5 hdr) of Inl err \<Rightarrow> [] | Inr c \<Rightarrow> [c]))"
  by (cases rule: answer_cases [of resp w conn ctx connect])
    (simp_all add: replay_plain [OF assms])

text \<open>
  A run of \<open>dialNTLM\<close> that wrote a request or read a response got as far as
  \<open>handshake\<close>.
\<close>

lemma dialNTLM_reached:
  fixes baseDial :: "unit \<Rightarrow> conn option \<times> error option"
  assumes "writes (snd (dialNTLM w p addr baseDial)) \<noteq> []
    \<or> responses (snd (dialNTLM w p addr baseDial)) \<noteq> []"
  obtains (reached) cr ctx neg where
    "fst (acquire w p) = Inr cr" "NewClientContext w cr = Inr (ctx, neg)"
    "fst (dialNTLM w p addr baseDial) = fst (handshake w p addr (fst (baseDial ())) ctx neg)"
    "writes (snd (dialNTLM w p addr baseDial))
       = writes (snd (handshake w p addr (fst (baseDial ())) ctx neg))"
    "responses (snd (dialNTLM w p addr baseDial))
       = responses (snd (handshake w p addr (fst (baseDial ())) ctx neg))"
    "updates (snd (dialNTLM w p addr baseDial))
       = updates (snd (handshake w p addr (fst (baseDial ())) ctx neg))"
    "set (snd (handshake w p addr (fst (baseDial ())) ctx neg))
       \<subseteq> set (snd (dialNTLM w p addr baseDial))"
proof (cases rule: dialNTLM_cases [of w p addr baseDial])
  case (early e)
  with assms show ?thesis by simp
next
  case (handshake cr ctx neg)
  then show ?thesis
    by (intro that [of cr ctx neg]) (auto simp: reading_append acquire_event)
qed

text \<open>Unfolding everything evaluates a run in a given world.\<close>

lemmas run_defs = dialNTLM_def withCredentials_def handshake_def answer_def replay_def
  rewind_def acquire_def challengeHeader_def verdict_def after_def deferred_def Clone_def
  Header_Set_def Sprintf_NTLM_def HasPrefix_def StatusOK_def StatusProxyAuthRequired_def
  Request_WriteProxy_def Let_def

lemmas base64_defs = DecodeString_def decodeMap_def encodeStd_def quantum_def padding_def
  trailing_def newline_def enc6_def

lemmas example_defs = scripted_def corpProxy_def bareProxy_def dialOk_def dialRefused_def
  negotiateMessage_def authenticateMessage_def challenge407_def ok200_def forbidden403_def
  truncated200_def bare407_def truncated407_def garbled407_def rewindable_def
  firstConnect_def secondConnect_def garbledTruncated407_def dialNil_def

text \<open>
  A dial function that returns neither a connection nor an error: the first write
  panics, and the deferred releases run.
\<close>

lemma nil_connection_panics:
  "dialNTLM (scripted challenge407 ok200) corpProxy ''example.org:443'' dialNil =
     (Panic ''invalid memory address or nil pointer dereference'',
      [Dialed, AcquiredUser ''CORP'' ''alice'' ''secret'', CreatedContext 7,
       Wrote firstConnect (Crashed ''invalid memory address or nil pointer dereference''),
       ReleasedContext 11, ReleasedCredentials 7])"
  by (simp add: run_defs base64_defs example_defs)

subsection \<open>Releases\<close>

text \<open>
  C7. On every path out of \<open>dialNTLM\<close>, returning or panicking, a credential that was
  acquired is released exactly once and a security context that was created is
  released exactly once; when the dial, the acquisition or the creation failed, nothing
  is released for the handle that was not obtained.
\<close>

theorem release_once:
  fixes baseDial :: "unit \<Rightarrow> conn option \<times> error option"
  shows
  "(snd (baseDial ()) = None \<and> fst (acquire w p) = Inr cr \<longrightarrow>
      releasedCredentials (snd (dialNTLM w p addr baseDial)) = [cr]) \<and>
   (snd (baseDial ()) \<noteq> None \<or> (\<exists>e. fst (acquire w p) = Inl e) \<longrightarrow>
      releasedCredentials (snd (dialNTLM w p addr baseDial)) = []) \<and>
   (snd (baseDial ()) = None \<and> fst (acquire w p) = Inr cr \<and>
      NewClientContext w cr = Inr (ctx, neg) \<longrightarrow>
      releasedContexts (snd (dialNTLM w p addr baseDial)) = [ctx]) \<and>
   (snd (baseDial ()) \<noteq> None \<or> (\<exists>e. fst (acquire w p) = Inl e)
      \<or> (\<exists>c e. fst (acquire w p) = Inr c \<and> NewClientContext w c = Inl e) \<longrightarrow>
      releasedContexts (snd (dialNTLM w p addr baseDial)) = [])"
proof (cases "baseDial ()")
  case (Pair conn err)
  show ?thesis
  proof (cases err)
    case (Some e)
    with Pair show ?thesis by (simp add: dialNTLM_def run_simps)
  next
    case None
    show ?thesis
    proof (cases "fst (acquire w p)")
      case (Inl e)
      with Pair None show ?thesis
        by (simp add: dialNTLM_def run_simps split_beta acquire_event)
    next
      case (Inr c)
      show ?thesis
      proof (cases "NewClientContext w c")
        case (Inl e)
        with Pair None Inr show ?thesis
          by (auto simp: dialNTLM_def withCredentials_def run_simps split_beta acquire_event
              reading_append)
      next
        case created: (Inr b)
        with Pair None Inr show ?thesis
          by (cases b)
            (auto simp: dialNTLM_def withCredentials_def run_simps split_beta acquire_event
              reading_append handshake_plain)
      qed
    qed
  qed
qed

theorem release_once_witness:
  "snd (dialOk ()) = None
   \<and> fst (acquire (scripted challenge407 ok200) corpProxy) = Inr 7
   \<and> NewClientContext (scripted challenge407 ok200) 7 = Inr (11, negotiateMessage)
   \<and> releasedCredentials
        (snd (dialNTLM (scripted challenge407 ok200) corpProxy ''example.org:443'' dialOk))
      = [7]
   \<and> releasedContexts
        (snd (dialNTLM (scripted challenge407 ok200) corpProxy ''example.org:443'' dialOk))
      = [11]"
  using release_once [of dialOk "scripted challenge407 ok200" corpProxy 7
      "''example.org:443''" 11 negotiateMessage]
  by (simp add: acquire_def scripted_def corpProxy_def dialOk_def)

subsection \<open>The connection\<close>

text \<open>
  C8. Whenever \<open>dialNTLM\<close> returns, on success and on every failure, the connection it
  returns is the one the dial function gave; when the dial function fails, its
  connection and its error are returned as they are and nothing else is done; and no
  run closes the connection.
\<close>

theorem connection_handed_back:
  fixes baseDial :: "unit \<Rightarrow> conn option \<times> error option"
  shows
  "(\<forall>c e. fst (dialNTLM w p addr baseDial) = Return c e \<longrightarrow> c = fst (baseDial ())) \<and>
   (\<forall>e. snd (baseDial ()) = Some e \<longrightarrow>
      dialNTLM w p addr baseDial = (Return (fst (baseDial ())) (Some e), [Dialed])) \<and>
   ConnClose \<notin> set (snd (dialNTLM w p addr baseDial))"
proof (intro conjI)
  show "\<forall>e. snd (baseDial ()) = Some e \<longrightarrow>
      dialNTLM w p addr baseDial = (Return (fst (baseDial ())) (Some e), [Dialed])"
    by (cases "baseDial ()") (simp add: dialNTLM_def after_def)
  show "\<forall>c e. fst (dialNTLM w p addr baseDial) = Return c e \<longrightarrow> c = fst (baseDial ())"
  proof (cases rule: dialNTLM_cases [of w p addr baseDial])
    case (early e)
    then show ?thesis by simp
  next
    case (handshake cr ctx neg)
    then show ?thesis
      by (auto dest: handshake_returns(1))
  qed
  show "ConnClose \<notin> set (snd (dialNTLM w p addr baseDial))"
  proof (cases rule: dialNTLM_cases [of w p addr baseDial])
    case (early e)
    then show ?thesis by simp
  next
    case (handshake cr ctx neg)
    then show ?thesis by (simp add: handshake_plain acquire_not_close)
  qed
qed

theorem connection_handed_back_witness:
  "snd (dialRefused ()) = Some (Foreign ''connection refused'')
   \<and> dialNTLM (scripted challenge407 ok200) corpProxy ''example.org:443'' dialRefused
       = (Return None (Some (Foreign ''connection refused'')), [Dialed])
   \<and> fst (dialNTLM (scripted challenge407 forbidden403) corpProxy ''example.org:443'' dialOk)
       = Return (Some 1) (Some (errors_New ''Forbidden''))
   \<and> Some 1 = fst (dialOk ())"
proof -
  have run: "fst (dialNTLM (scripted challenge407 forbidden403) corpProxy ''example.org:443''
      dialOk) = Return (Some 1) (Some (errors_New ''Forbidden''))"
    by (simp add: run_defs base64_defs example_defs StatusText_def statusText_def)
  from connection_handed_back [of "scripted challenge407 ok200" corpProxy
      "''example.org:443''" dialRefused]
    connection_handed_back [of "scripted challenge407 forbidden403" corpProxy
      "''example.org:443''" dialOk] run
  show ?thesis by (simp add: dialRefused_def)
qed

subsection \<open>The nil header map\<close>

text \<open>
  C10. When the dial, the acquisition of the credential and the creation of the context
  succeed and the configured header map is nil, \<open>dialNTLM\<close> panics instead of
  returning an error: the clone of a nil map is nil, and setting \<open>Proxy-Authorization\<close>
  on it is an assignment to an entry of a nil map. No request has been written by
  then, and the two deferred releases still run. So a call that returns had a header
  map that is not nil.
\<close>

theorem nil_headers_panic:
  fixes baseDial :: "unit \<Rightarrow> conn option \<times> error option"
  assumes "snd (baseDial ()) = None" "fst (acquire w p) = Inr cr"
    "NewClientContext w cr = Inr (ctx, neg)"
  shows
  "(Headers p = None \<longrightarrow>
      Clone (Headers p) = None \<and>
      dialNTLM w p addr baseDial =
        (Panic ''assignment to entry in nil map'',
         [Dialed, snd (acquire w p), CreatedContext cr, ReleasedContext ctx,
          ReleasedCredentials cr])) \<and>
   ((\<exists>c e. fst (dialNTLM w p addr baseDial) = Return c e) \<longrightarrow> Headers p \<noteq> None)"
proof -
  have run: "dialNTLM w p addr baseDial =
      (fst (handshake w p addr (fst (baseDial ())) ctx neg),
       [Dialed, snd (acquire w p), CreatedContext cr]
       @ snd (handshake w p addr (fst (baseDial ())) ctx neg)
       @ [ReleasedContext ctx, ReleasedCredentials cr])"
    using assms
    by (cases "baseDial ()")
      (simp add: dialNTLM_def withCredentials_def after_def deferred_def split_beta)
  show ?thesis
  proof (cases "Headers p")
    case None
    with run show ?thesis by (simp add: handshake_plain Clone_def)
  next
    case (Some h)
    then show ?thesis by simp
  qed
qed

theorem nil_headers_panic_witness:
  "snd (dialOk ()) = None
   \<and> fst (acquire (scripted challenge407 ok200) bareProxy) = Inr 8
   \<and> NewClientContext (scripted challenge407 ok200) 8 = Inr (11, negotiateMessage)
   \<and> Headers bareProxy = None
   \<and> dialNTLM (scripted challenge407 ok200) bareProxy ''example.org:443'' dialOk
       = (Panic ''assignment to entry in nil map'',
          [Dialed, AcquiredCurrent, CreatedContext 8, ReleasedContext 11,
           ReleasedCredentials 8])
   \<and> fst (acquire (scripted challenge407 ok200) corpProxy) = Inr 7
   \<and> NewClientContext (scripted challenge407 ok200) 7 = Inr (11, negotiateMessage)
   \<and> fst (dialNTLM (scripted challenge407 ok200) corpProxy ''example.org:443'' dialOk)
       = Return (Some 1) None
   \<and> Headers corpProxy \<noteq> None"
proof -
  have ret: "fst (dialNTLM (scripted challenge407 ok200) corpProxy ''example.org:443''
      dialOk) = Return (Some 1) None"
    by (simp add: run_defs base64_defs example_defs)
  from nil_headers_panic [of dialOk "scripted challenge407 ok200" bareProxy 8 11
      negotiateMessage "''example.org:443''"]
    nil_headers_panic [of dialOk "scripted challenge407 ok200" corpProxy 7 11
      negotiateMessage "''example.org:443''"] ret
  show ?thesis
    by (simp add: acquire_def scripted_def bareProxy_def corpProxy_def dialOk_def)
qed

subsection \<open>The two verdicts\<close>

text \<open>
  C1. When both responses were read (so both requests were written), a second response
  with status 200 makes \<open>dialNTLM\<close> return the dialed connection and no error, and any
  other status makes it return the connection and an error whose text is the reason
  phrase \<open>StatusText\<close> gives for that status.
\<close>

theorem final_status:
  fixes baseDial :: "unit \<Rightarrow> conn option \<times> error option"
  assumes "responses (snd (dialNTLM w p addr baseDial)) = [resp1, resp2]"
  shows
  "length (writes (snd (dialNTLM w p addr baseDial))) = 2 \<and>
   (StatusCode resp2 = 200 \<longrightarrow>
      fst (dialNTLM w p addr baseDial) = Return (fst (baseDial ())) None) \<and>
   (StatusCode resp2 \<noteq> 200 \<longrightarrow>
      (\<exists>err. fst (dialNTLM w p addr baseDial) = Return (fst (baseDial ())) (Some err)
         \<and> Error err = StatusText (StatusCode resp2)))"
proof -
  let ?conn = "fst (baseDial ())"
  from assms have "writes (snd (dialNTLM w p addr baseDial)) \<noteq> []
    \<or> responses (snd (dialNTLM w p addr baseDial)) \<noteq> []" by simp
  then show ?thesis
  proof (cases rule: dialNTLM_reached)
    case (reached cr ctx neg)
    from reached(5) assms
    have both: "responses (snd (handshake w p addr ?conn ctx neg)) = resp1 # [resp2]"
      by simp
    then have "length (writes (snd (handshake w p addr ?conn ctx neg))) = 2
      \<and> fst (handshake w p addr ?conn ctx neg) = verdict ?conn resp2"
    proof (cases rule: handshake_first_response)
      case (close_failed err connect)
      then show ?thesis by simp
    next
      case (answered connect h)
      from answered(4) both
      have second: "responses (snd (answer w ?conn ctx connect resp1)) = [resp2]"
        by (simp add: reading_append)
      with answer_responses [OF answered(2,3), of w ?conn ctx resp1]
      have v: "fst (answer w ?conn ctx connect resp1) = verdict ?conn resp2"
        "length (writes (snd (answer w ?conn ctx connect resp1))) = 1" by auto
      with v answered(4) show ?thesis by (simp add: reading_append)
    qed
    with reached(3,4) show ?thesis by (auto simp: verdict_def StatusOK_def)
  qed
qed

theorem final_status_witness:
  "responses (snd (dialNTLM (scripted challenge407 forbidden403) corpProxy ''example.org:443''
      dialOk)) = [challenge407, forbidden403]
   \<and> StatusCode forbidden403 \<noteq> 200
   \<and> (\<exists>err. fst (dialNTLM (scripted challenge407 forbidden403) corpProxy ''example.org:443''
          dialOk) = Return (Some 1) (Some err) \<and> Error err = ''Forbidden'')"
proof -
  have rs: "responses (snd (dialNTLM (scripted challenge407 forbidden403) corpProxy
      ''example.org:443'' dialOk)) = [challenge407, forbidden403]"
    by (simp add: run_defs base64_defs example_defs)
  from final_status [OF rs] rs show ?thesis
    by (simp add: forbidden403_def dialOk_def StatusText_def statusText_def)
qed


subsection \<open>The first response\<close>

text \<open>
  The rest of a run after a first response whose body was closed: what \<open>answer\<close> makes
  of a response that is not a 407 with exactly one NTLM challenge.
\<close>

lemma answer_rejected:
  assumes "challengeHeader resp = Inl err"
  shows "answer w conn ctx connect resp = (Return conn (Some err), [])"
  using assms by (simp add: answer_def)

lemma first_response_rejected:
  fixes baseDial :: "unit \<Rightarrow> conn option \<times> error option"
  assumes "responses (snd (dialNTLM w p addr baseDial)) = resp1 # rest"
    and "challengeHeader resp1 = Inl err"
  shows "(Body_Close resp1 = None \<longrightarrow>
           fst (dialNTLM w p addr baseDial) = Return (fst (baseDial ())) (Some err)) \<and>
         (\<forall>e. Body_Close resp1 = Some e \<longrightarrow>
           fst (dialNTLM w p addr baseDial) = Return (fst (baseDial ())) (Some e)) \<and>
         length (writes (snd (dialNTLM w p addr baseDial))) = 1"
proof -
  let ?conn = "fst (baseDial ())"
  from assms(1) have "writes (snd (dialNTLM w p addr baseDial)) \<noteq> []
    \<or> responses (snd (dialNTLM w p addr baseDial)) \<noteq> []" by simp
  then show ?thesis
  proof (cases rule: dialNTLM_reached)
    case (reached cr ctx neg)
    from reached(5) assms(1)
    have "responses (snd (handshake w p addr ?conn ctx neg)) = resp1 # rest" by simp
    then show ?thesis
    proof (cases rule: handshake_first_response)
      case (close_failed e connect)
      with reached(3,4) show ?thesis by simp
    next
      case (answered connect h)
      with reached(3,4) answer_rejected [OF assms(2), of w ?conn ctx connect]
      show ?thesis by simp
    qed
  qed
qed

text \<open>
  C2, as the code has it. For a first response whose status is not 407 no second request
  is written, and \<open>dialNTLM\<close> returns the connection with the error
  \<open>Unexpected HTTP status code\<close> when the body of the response was closed without
  error. The body is closed before the status is looked at, and when closing fails
  the error of the close is returned instead.
\<close>

theorem unexpected_status:
  fixes baseDial :: "unit \<Rightarrow> conn option \<times> error option"
  assumes "responses (snd (dialNTLM w p addr baseDial)) = resp1 # rest"
    and "StatusCode resp1 \<noteq> 407"
  shows "(Body_Close resp1 = None \<longrightarrow>
           fst (dialNTLM w p addr baseDial)
             = Return (fst (baseDial ())) (Some (errors_New ''Unexpected HTTP status code''))) \<and>
         (\<forall>e. Body_Close resp1 = Some e \<longrightarrow>
           fst (dialNTLM w p addr baseDial) = Return (fst (baseDial ())) (Some e)) \<and>
         length (writes (snd (dialNTLM w p addr baseDial))) = 1"
proof -
  from assms(2)
  have "challengeHeader resp1 = Inl (errors_New ''Unexpected HTTP status code'')"
    by (simp add: challengeHeader_def StatusProxyAuthRequired_def)
  from first_response_rejected [OF assms(1) this] show ?thesis .
qed

theorem unexpected_status_witness:
  "responses (snd (dialNTLM (scripted ok200 ok200) corpProxy ''example.org:443'' dialOk))
     = [ok200]
   \<and> StatusCode ok200 \<noteq> 407 \<and> Body_Close ok200 = None
   \<and> fst (dialNTLM (scripted ok200 ok200) corpProxy ''example.org:443'' dialOk)
     = Return (Some 1) (Some (errors_New ''Unexpected HTTP status code''))
   \<and> length (writes (snd (dialNTLM (scripted ok200 ok200) corpProxy ''example.org:443''
        dialOk))) = 1"
proof -
  have rs: "responses (snd (dialNTLM (scripted ok200 ok200) corpProxy ''example.org:443''
      dialOk)) = [ok200]"
    by (simp add: run_defs example_defs)
  have st: "StatusCode ok200 \<noteq> 407" by (simp add: ok200_def)
  from unexpected_status [OF rs st] rs st show ?thesis
    by (simp add: ok200_def dialOk_def)
qed

text \<open>
  Without the condition on the close the statement fails: when the body of a non-407
  response cannot be closed, the error returned is that of the close.
\<close>

theorem unexpected_status_counterexample:
  "responses (snd (dialNTLM (scripted truncated200 ok200) corpProxy ''example.org:443''
      dialOk)) = [truncated200]
   \<and> StatusCode truncated200 \<noteq> 407
   \<and> fst (dialNTLM (scripted truncated200 ok200) corpProxy ''example.org:443'' dialOk)
     = Return (Some 1) (Some (Foreign ''unexpected EOF''))
   \<and> Error (Foreign ''unexpected EOF'') \<noteq> ''Unexpected HTTP status code''"
  by (simp add: run_defs example_defs)

text \<open>
  C3, as the code has it. For a 407 first response whose \<open>Proxy-Authenticate\<close> header
  is absent, or has a number of values other than one, or whose value is shorter than
  six characters or does not begin with \<open>NTLM \<close>, no second request is written, and
  \<open>dialNTLM\<close> returns the connection with the error of a missing or of a malformed
  challenge when the body of the response was closed without error. When closing
  fails the error of the close is returned instead.
\<close>

theorem malformed_challenge:
  fixes baseDial :: "unit \<Rightarrow> conn option \<times> error option"
  assumes "responses (snd (dialNTLM w p addr baseDial)) = resp1 # rest"
    and "StatusCode resp1 = 407"
    and "RespHeader resp1 ''Proxy-Authenticate'' = None \<or>
         (\<exists>vs. RespHeader resp1 ''Proxy-Authenticate'' = Some vs \<and>
            (length vs \<noteq> 1 \<or> length (vs ! 0) < 6 \<or> \<not> HasPrefix (vs ! 0) ''NTLM ''))"
  shows "(Body_Close resp1 = None \<longrightarrow>
           fst (dialNTLM w p addr baseDial)
             = Return (fst (baseDial ()))
                 (Some (errors_New
                    (if RespHeader resp1 ''Proxy-Authenticate'' = None
                     then ''did not receive a challenge from the server''
                     else ''received malformed challenge from the server'')))) \<and>
         (\<forall>e. Body_Close resp1 = Some e \<longrightarrow>
           fst (dialNTLM w p addr baseDial) = Return (fst (baseDial ())) (Some e)) \<and>
         length (writes (snd (dialNTLM w p addr baseDial))) = 1"
proof -
  from assms(2,3)
  have "challengeHeader resp1 =
    Inl (errors_New (if RespHeader resp1 ''Proxy-Authenticate'' = None
                     then ''did not receive a challenge from the server''
                     else ''received malformed challenge from the server''))"
    by (auto simp: challengeHeader_def StatusProxyAuthRequired_def)
  from first_response_rejected [OF assms(1) this] show ?thesis .
qed

theorem malformed_challenge_witness:
  "responses (snd (dialNTLM (scripted bare407 ok200) corpProxy ''example.org:443'' dialOk))
     = [bare407]
   \<and> StatusCode bare407 = 407 \<and> RespHeader bare407 ''Proxy-Authenticate'' = None
   \<and> Body_Close bare407 = None
   \<and> fst (dialNTLM (scripted bare407 ok200) corpProxy ''example.org:443'' dialOk)
     = Return (Some 1) (Some (errors_New ''did not receive a challenge from the server''))
   \<and> length (writes (snd (dialNTLM (scripted bare407 ok200) corpProxy ''example.org:443''
        dialOk))) = 1"
proof -
  have rs: "responses (snd (dialNTLM (scripted bare407 ok200) corpProxy ''example.org:443''
      dialOk)) = [bare407]"
    by (simp add: run_defs example_defs)
  have st: "StatusCode bare407 = 407" by (simp add: bare407_def)
  have hd: "RespHeader bare407 ''Proxy-Authenticate'' = None \<or>
         (\<exists>vs. RespHeader bare407 ''Proxy-Authenticate'' = Some vs \<and>
            (length vs \<noteq> 1 \<or> length (vs ! 0) < 6 \<or> \<not> HasPrefix (vs ! 0) ''NTLM ''))"
    by (simp add: bare407_def)
  from malformed_challenge [OF rs st hd] rs st show ?thesis
    by (simp add: bare407_def dialOk_def)
qed

text \<open>
  Here too the condition on the close is needed: a 407 without a challenge whose body
  cannot be closed yields the error of the close.
\<close>

theorem malformed_challenge_counterexample:
  "responses (snd (dialNTLM (scripted truncated407 ok200) corpProxy ''example.org:443''
      dialOk)) = [truncated407]
   \<and> StatusCode truncated407 = 407
   \<and> RespHeader truncated407 ''Proxy-Authenticate'' = None
   \<and> fst (dialNTLM (scripted truncated407 ok200) corpProxy ''example.org:443'' dialOk)
     = Return (Some 1) (Some (Foreign ''unexpected EOF''))
   \<and> Error (Foreign ''unexpected EOF'') \<noteq> ''did not receive a challenge from the server''
   \<and> Error (Foreign ''unexpected EOF'') \<noteq> ''received malformed challenge from the server''"
  by (simp add: run_defs example_defs)

subsection \<open>The challenge\<close>

text \<open>
  C6, as the code has it. Take a 407 first response with the single
  \<open>Proxy-Authenticate\<close> value \<open>v\<close> of at least six characters beginning with \<open>NTLM \<close>.
  When its body was closed without error: if what follows the five characters of the
  prefix decodes as base64, \<open>Update\<close> is called once, with exactly the decoded bytes;
  if it does not, \<open>dialNTLM\<close> returns the connection with the error of the decoder and
  \<open>Update\<close> is not called. When closing the body fails, the error of the close is
  returned and \<open>Update\<close> is not called.
\<close>

theorem challenge_decoded:
  fixes baseDial :: "unit \<Rightarrow> conn option \<times> error option"
  assumes "responses (snd (dialNTLM w p addr baseDial)) = resp1 # rest"
    and "StatusCode resp1 = 407"
    and "RespHeader resp1 ''Proxy-Authenticate'' = Some [v]"
    and "6 \<le> length v" and "HasPrefix v ''NTLM ''"
  shows "(Body_Close resp1 = None \<longrightarrow>
            (\<forall>challenge. DecodeString (drop 5 v) = Inr challenge \<longrightarrow>
               updates (snd (dialNTLM w p addr baseDial)) = [challenge]) \<and>
            (\<forall>err. DecodeString (drop 5 v) = Inl err \<longrightarrow>
               fst (dialNTLM w p addr baseDial) = Return (fst (baseDial ())) (Some err) \<and>
               updates (snd (dialNTLM w p addr baseDial)) = [])) \<and>
         (\<forall>e. Body_Close resp1 = Some e \<longrightarrow>
            fst (dialNTLM w p addr baseDial) = Return (fst (baseDial ())) (Some e) \<and>
            updates (snd (dialNTLM w p addr baseDial)) = [])"
proof -
  let ?conn = "fst (baseDial ())"
  from assms(2-5) have hdr: "challengeHeader resp1 = Inr v"
    by (simp add: challengeHeader_def StatusProxyAuthRequired_def)
  from assms(1) have "writes (snd (dialNTLM w p addr baseDial)) \<noteq> []
    \<or> responses (snd (dialNTLM w p addr baseDial)) \<noteq> []" by simp
  then show ?thesis
  proof (cases rule: dialNTLM_reached)
    case (reached cr ctx neg)
    from reached(5) assms(1)
    have "responses (snd (handshake w p addr ?conn ctx neg)) = resp1 # rest" by simp
    then show ?thesis
    proof (cases rule: handshake_first_response)
      case (close_failed e connect)
      with reached(3,6) show ?thesis by simp
    next
      case (answered connect h)
      have "\<forall>err. DecodeString (drop 5 v) = Inl err \<longrightarrow>
          fst (answer w ?conn ctx connect resp1) = Return ?conn (Some err)"
        using hdr by (simp add: answer_def)
      with reached(3,6) answered(1,4) answer_updates [OF answered(2,3), of w ?conn ctx resp1]
        hdr
      show ?thesis by (auto simp: reading_append)
    qed
  qed
qed

theorem challenge_decoded_witness:
  "responses (snd (dialNTLM (scripted challenge407 ok200) corpProxy ''example.org:443''
      dialOk)) = [challenge407, ok200]
   \<and> Body_Close challenge407 = None
   \<and> DecodeString (drop 5 ''NTLM TlRMTVNTUAAC'') = Inr [78, 84, 76, 77, 83, 83, 80, 0, 2]
   \<and> updates (snd (dialNTLM (scripted challenge407 ok200) corpProxy ''example.org:443''
        dialOk)) = [[78, 84, 76, 77, 83, 83, 80, 0, 2]]
   \<and> responses (snd (dialNTLM (scripted garbled407 ok200) corpProxy ''example.org:443''
        dialOk)) = [garbled407]
   \<and> Body_Close garbled407 = None
   \<and> DecodeString (drop 5 ''NTLM !!!!'') = Inl (CorruptInputError 0)
   \<and> fst (dialNTLM (scripted garbled407 ok200) corpProxy ''example.org:443'' dialOk)
       = Return (Some 1) (Some (CorruptInputError 0))
   \<and> updates (snd (dialNTLM (scripted garbled407 ok200) corpProxy ''example.org:443''
        dialOk)) = []"
proof -
  have rs: "responses (snd (dialNTLM (scripted challenge407 ok200) corpProxy
      ''example.org:443'' dialOk)) = [challenge407, ok200]"
    by (simp add: run_defs base64_defs example_defs)
  have rs': "responses (snd (dialNTLM (scripted garbled407 ok200) corpProxy
      ''example.org:443'' dialOk)) = [garbled407]"
    by (simp add: run_defs base64_defs example_defs)
  have dec: "DecodeString (drop 5 ''NTLM TlRMTVNTUAAC'') = Inr [78, 84, 76, 77, 83, 83, 80, 0, 2]"
    by (simp add: base64_defs)
  have dec': "DecodeString (drop 5 ''NTLM !!!!'') = Inl (CorruptInputError 0)"
    by (simp add: base64_defs)
  from challenge_decoded [OF rs, of "''NTLM TlRMTVNTUAAC''"]
    challenge_decoded [OF rs', of "''NTLM !!!!''"] rs rs' dec dec'
  show ?thesis
    by (simp add: challenge407_def garbled407_def dialOk_def HasPrefix_def)
qed

text \<open>
  Without the condition on the close the second half of the statement fails: a 407
  whose one challenge is not base64 and whose body cannot be closed yields the error of
  the close, not that of the decoder.
\<close>

theorem challenge_decoded_counterexample:
  "responses (snd (dialNTLM (scripted garbledTruncated407 ok200) corpProxy
      ''example.org:443'' dialOk)) = [garbledTruncated407]
   \<and> StatusCode garbledTruncated407 = 407
   \<and> RespHeader garbledTruncated407 ''Proxy-Authenticate'' = Some [''NTLM !!!!'']
   \<and> 6 \<le> length ''NTLM !!!!'' \<and> HasPrefix ''NTLM !!!!'' ''NTLM ''
   \<and> DecodeString (drop 5 ''NTLM !!!!'') = Inl (CorruptInputError 0)
   \<and> fst (dialNTLM (scripted garbledTruncated407 ok200) corpProxy ''example.org:443''
        dialOk) = Return (Some 1) (Some (Foreign ''unexpected EOF''))
   \<and> Foreign ''unexpected EOF'' \<noteq> CorruptInputError 0"
  by (simp add: run_defs base64_defs example_defs)

subsection \<open>The two requests\<close>

text \<open>
  A run of \<open>handshake\<close> that wrote a request: the request is the one built from the
  configured headers, and any further request is written by \<open>answer\<close>.
\<close>

lemma handshake_first_write:
  fixes addr :: string and neg :: bytes
  assumes "writes (snd (handshake w p addr conn ctx neg)) = r1 # rest"
  obtains (written) h where "Headers p = Some h"
    "r1 = \<lparr>Method = ''CONNECT'', URL_Opaque = addr, Host = addr,
      Header = Some (h(''Proxy-Authorization'' \<mapsto> [''NTLM '' @ EncodeToString neg],
                       ''Proxy-Connection'' \<mapsto> [''Keep-Alive''])),
      Body = None, GetBody = None\<rparr>"
    "rest = [] \<or>
     (\<exists>resp. rest = writes (snd (answer w conn ctx r1 resp)) \<and>
        set (snd (answer w conn ctx r1 resp)) \<subseteq> set (snd (handshake w p addr conn ctx neg)) \<and>
        updates (snd (handshake w p addr conn ctx neg))
          = updates (snd (answer w conn ctx r1 resp)))"
proof (cases rule: handshake_cases [of p w addr conn ctx neg])
  case nil_map
  with assms show ?thesis by simp
next
  case (write_failed h err)
  with assms show ?thesis by (intro written [of h]) simp_all
next
  case (write_crashed h msg)
  with assms show ?thesis by (intro written [of h]) simp_all
next
  case (read_failed h err)
  with assms show ?thesis by (intro written [of h]) simp_all
next
  case (close_failed h resp err)
  with assms show ?thesis by (intro written [of h]) simp_all
next
  case (answered h resp)
  with assms show ?thesis
    by (intro written [of h]) (auto simp: reading_append)
qed

text \<open>
  C4. The first request a run writes has method \<open>CONNECT\<close>, the target address as its
  opaque URL and as its host, and no body. Its headers are the configured ones with
  \<open>Proxy-Authorization\<close> set to \<open>NTLM \<close> followed by the base64 encoding of the
  Negotiate token that came with the security context, and \<open>Proxy-Connection\<close> set to
  \<open>Keep-Alive\<close>; every header configured under another name is there unchanged.
\<close>

theorem first_request:
  fixes baseDial :: "unit \<Rightarrow> conn option \<times> error option"
  assumes "writes (snd (dialNTLM w p addr baseDial)) = r1 # rest"
  shows "\<exists>h cr ctx neg hdr.
    Headers p = Some h \<and> fst (acquire w p) = Inr cr \<and>
    NewClientContext w cr = Inr (ctx, neg) \<and>
    Method r1 = ''CONNECT'' \<and> URL_Opaque r1 = addr \<and> Host r1 = addr \<and>
    Body r1 = None \<and> GetBody r1 = None \<and> Header r1 = Some hdr \<and>
    hdr ''Proxy-Authorization'' = Some [''NTLM '' @ EncodeToString neg] \<and>
    hdr ''Proxy-Connection'' = Some [''Keep-Alive''] \<and>
    (\<forall>k. k \<noteq> ''Proxy-Authorization'' \<and> k \<noteq> ''Proxy-Connection'' \<longrightarrow> hdr k = h k)"
proof -
  from assms have "writes (snd (dialNTLM w p addr baseDial)) \<noteq> []
    \<or> responses (snd (dialNTLM w p addr baseDial)) \<noteq> []" by simp
  then show ?thesis
  proof (cases rule: dialNTLM_reached)
    case (reached cr ctx neg)
    from reached(4) assms
    have "writes (snd (handshake w p addr (fst (baseDial ())) ctx neg)) = r1 # rest" by simp
    then show ?thesis
    proof (cases rule: handshake_first_write)
      case (written h)
      with reached(1,2) show ?thesis by simp
    qed
  qed
qed

theorem first_request_witness:
  "writes (snd (dialNTLM (scripted ok200 ok200) corpProxy ''example.org:443'' dialOk))
     = firstConnect # []
   \<and> (\<exists>h cr ctx neg hdr.
    Headers corpProxy = Some h \<and> fst (acquire (scripted ok200 ok200) corpProxy) = Inr cr \<and>
    NewClientContext (scripted ok200 ok200) cr = Inr (ctx, neg) \<and>
    Method firstConnect = ''CONNECT'' \<and> URL_Opaque firstConnect = ''example.org:443'' \<and>
    Host firstConnect = ''example.org:443'' \<and>
    Body firstConnect = None \<and> GetBody firstConnect = None \<and>
    Header firstConnect = Some hdr \<and>
    hdr ''Proxy-Authorization'' = Some [''NTLM '' @ EncodeToString neg] \<and>
    hdr ''Proxy-Connection'' = Some [''Keep-Alive''] \<and>
    (\<forall>k. k \<noteq> ''Proxy-Authorization'' \<and> k \<noteq> ''Proxy-Connection'' \<longrightarrow> hdr k = h k))"
proof -
  have wr: "writes (snd (dialNTLM (scripted ok200 ok200) corpProxy ''example.org:443''
      dialOk)) = firstConnect # []"
    by (simp add: run_defs base64_defs example_defs)
  show ?thesis using wr first_request [OF wr] by (rule conjI)
qed

text \<open>
  C5. When a run writes two requests, the second is the first with one change: its
  \<open>Proxy-Authorization\<close> header is \<open>NTLM \<close> followed by the base64 encoding of the
  token that \<open>Update\<close> of the created security context returned for the challenge.
  Method, target, host, body and every other header are those of the first request.
\<close>

theorem second_request:
  fixes baseDial :: "unit \<Rightarrow> conn option \<times> error option"
  assumes "writes (snd (dialNTLM w p addr baseDial)) = [r1, r2]"
  shows "\<exists>cr ctx neg challenge authenticate hdr.
    fst (acquire w p) = Inr cr \<and> NewClientContext w cr = Inr (ctx, neg) \<and>
    Updated ctx challenge \<in> set (snd (dialNTLM w p addr baseDial)) \<and>
    Update w ctx challenge = Inr authenticate \<and>
    Header r1 = Some hdr \<and>
    r2 = r1\<lparr>Header := Some (hdr(''Proxy-Authorization'' \<mapsto>
                  [''NTLM '' @ EncodeToString authenticate]))\<rparr>"
proof -
  let ?conn = "fst (baseDial ())"
  from assms have "writes (snd (dialNTLM w p addr baseDial)) \<noteq> []
    \<or> responses (snd (dialNTLM w p addr baseDial)) \<noteq> []" by simp
  then show ?thesis
  proof (cases rule: dialNTLM_reached)
    case (reached cr ctx neg)
    from reached(4) assms
    have "writes (snd (handshake w p addr ?conn ctx neg)) = r1 # [r2]" by simp
    then show ?thesis
    proof (cases rule: handshake_first_write)
      case (written h)
      from written(3) obtain resp where
        second: "writes (snd (answer w ?conn ctx r1 resp)) = [r2]"
        and sub: "set (snd (answer w ?conn ctx r1 resp))
          \<subseteq> set (snd (handshake w p addr ?conn ctx neg))"
        by auto
      let ?hdr = "h(''Proxy-Authorization'' \<mapsto> [''NTLM '' @ EncodeToString neg],
                    ''Proxy-Connection'' \<mapsto> [''Keep-Alive''])"
      from written(2) have plain: "GetBody r1 = None" "Header r1 = Some ?hdr" by simp_all
      from answer_writes [OF plain, of w ?conn ctx resp] second
      obtain challenge authenticate where
        "Updated ctx challenge \<in> set (snd (answer w ?conn ctx r1 resp))"
        "Update w ctx challenge = Inr authenticate"
        "r2 = r1\<lparr>Header := Some (?hdr(''Proxy-Authorization'' \<mapsto>
                  [''NTLM '' @ EncodeToString authenticate]))\<rparr>"
        by auto
      with sub reached(1,2,7) plain(2) show ?thesis by blast
    qed
  qed
qed

theorem second_request_witness:
  "writes (snd (dialNTLM (scripted challenge407 ok200) corpProxy ''example.org:443'' dialOk))
     = [firstConnect, secondConnect]
   \<and> (\<exists>cr ctx neg challenge authenticate hdr.
    fst (acquire (scripted challenge407 ok200) corpProxy) = Inr cr \<and>
    NewClientContext (scripted challenge407 ok200) cr = Inr (ctx, neg) \<and>
    Updated ctx challenge
      \<in> set (snd (dialNTLM (scripted challenge407 ok200) corpProxy ''example.org:443''
                dialOk)) \<and>
    Update (scripted challenge407 ok200) ctx challenge = Inr authenticate \<and>
    Header firstConnect = Some hdr \<and>
    secondConnect = firstConnect\<lparr>Header := Some (hdr(''Proxy-Authorization'' \<mapsto>
                  [''NTLM '' @ EncodeToString authenticate]))\<rparr>)"
proof -
  have wr: "writes (snd (dialNTLM (scripted challenge407 ok200) corpProxy ''example.org:443''
      dialOk)) = [firstConnect, secondConnect]"
    by (simp add: run_defs base64_defs example_defs)
  show ?thesis using wr second_request [OF wr] by (rule conjI)
qed

subsection \<open>The request body\<close>

text \<open>
  C9. At the replay step a request that has \<open>GetBody\<close> gets its body from it before
  anything is written: when \<open>GetBody\<close> fails, its error is returned with the connection
  and nothing is written; when it succeeds, the request that is written carries the
  fresh body, whatever body the request had before. The request that \<open>dialNTLM\<close>
  itself builds has neither a body nor \<open>GetBody\<close>, so its runs never call it and never
  send a body.
\<close>

theorem body_rewound:
  fixes baseDial :: "unit \<Rightarrow> conn option \<times> error option"
  assumes "GetBody connect = Some getBody"
  shows
  "(\<forall>err. getBody () = Inl err \<longrightarrow>
      replay w conn connect authenticate = (Return conn (Some err), [GotBody])) \<and>
   (\<forall>body. getBody () = Inr body \<longrightarrow>
      (\<exists>evs. snd (replay w conn connect authenticate) = GotBody # evs) \<and>
      (\<forall>r \<in> set (writes (snd (replay w conn connect authenticate))). Body r = Some body) \<and>
      (Header connect \<noteq> None \<longrightarrow>
         length (writes (snd (replay w conn connect authenticate))) = 1)) \<and>
   (\<forall>r \<in> set (writes (snd (dialNTLM w p addr baseDial))). Body r = None \<and> GetBody r = None) \<and>
   GotBody \<notin> set (snd (dialNTLM w p addr baseDial))"
proof (intro conjI)
  show "\<forall>err. getBody () = Inl err \<longrightarrow>
      replay w conn connect authenticate = (Return conn (Some err), [GotBody])"
    using assms by (simp add: replay_def rewind_def)
  show "\<forall>body. getBody () = Inr body \<longrightarrow>
      (\<exists>evs. snd (replay w conn connect authenticate) = GotBody # evs) \<and>
      (\<forall>r \<in> set (writes (snd (replay w conn connect authenticate))). Body r = Some body) \<and>
      (Header connect \<noteq> None \<longrightarrow>
         length (writes (snd (replay w conn connect authenticate))) = 1)"
    using assms
    by (auto simp: replay_def rewind_def Header_Set_def Let_def
        split: option.splits sum.splits written.splits)
  have hs: "(\<forall>r \<in> set (writes (snd (handshake w p addr c ctx neg))).
        Body r = None \<and> GetBody r = None)
      \<and> GotBody \<notin> set (snd (handshake w p addr c ctx neg))" for c ctx neg
  proof (cases rule: handshake_cases [of p w addr c ctx neg])
    case (answered h resp)
    let ?hdr = "h(''Proxy-Authorization'' \<mapsto> [''NTLM '' @ EncodeToString neg],
                  ''Proxy-Connection'' \<mapsto> [''Keep-Alive''])"
    let ?r = "\<lparr>Method = ''CONNECT'', URL_Opaque = addr, Host = addr, Header = Some ?hdr,
               Body = None, GetBody = None\<rparr>"
    have plain: "GetBody ?r = None" "Header ?r = Some ?hdr" by simp_all
    have "(\<forall>r \<in> set (writes (snd (answer w c ctx ?r resp))).
        Body r = None \<and> GetBody r = None)
      \<and> GotBody \<notin> set (snd (answer w c ctx ?r resp))"
    proof (cases rule: answer_cases [of resp w c ctx ?r])
      case (replayed hdr challenge a)
      have "(\<forall>r \<in> set (writes (snd (replay w c ?r a))). Body r = None \<and> GetBody r = None)
        \<and> GotBody \<notin> set (snd (replay w c ?r a))"
        by (cases rule: replay_cases [OF plain, of w c a]) simp_all
      with replayed show ?thesis by simp
    qed simp_all
    with answered show ?thesis by (simp add: reading_append)
  qed simp_all
  have all: "(\<forall>r \<in> set (writes (snd (dialNTLM w p addr baseDial))).
        Body r = None \<and> GetBody r = None)
      \<and> GotBody \<notin> set (snd (dialNTLM w p addr baseDial))"
  proof (cases rule: dialNTLM_cases [of w p addr baseDial])
    case (early e)
    then show ?thesis by simp
  next
    case (handshake cr ctx neg)
    with hs [of "fst (baseDial ())" ctx neg] show ?thesis
      by (simp add: reading_append acquire_event acquire_not_close)
  qed
  from all show "\<forall>r \<in> set (writes (snd (dialNTLM w p addr baseDial))).
      Body r = None \<and> GetBody r = None" by simp
  from all show "GotBody \<notin> set (snd (dialNTLM w p addr baseDial))" by simp
qed

theorem body_rewound_witness:
  "(\<exists>getBody. GetBody rewindable = Some getBody \<and> getBody () = Inr ''payload'')
   \<and> Body rewindable = Some []
   \<and> map Body (writes (snd (replay (scripted challenge407 ok200) (Some 1) rewindable
        authenticateMessage))) = [Some ''payload'']"
proof -
  let ?run = "replay (scripted challenge407 ok200) (Some 1) rewindable authenticateMessage"
  have gb: "GetBody rewindable = Some (\<lambda>u. Inr ''payload'')"
    by (simp add: rewindable_def)
  have hd: "Header rewindable \<noteq> None" by (simp add: rewindable_def)
  from body_rewound [OF gb, of "scripted challenge407 ok200" "Some 1" authenticateMessage
      corpProxy "''example.org:443''" dialOk] hd
  have one: "length (writes (snd ?run)) = 1"
    and fresh: "\<forall>r \<in> set (writes (snd ?run)). Body r = Some ''payload''"
    by simp_all
  from one obtain r where "writes (snd ?run) = [r]"
    by (cases "writes (snd ?run)") simp_all
  with fresh gb show ?thesis by (simp add: rewindable_def)
qed

end
